theory Spec2Isabelle
  imports Complex_Main "HOL-Library.Word"
begin

section \<open>The fork choice of go-quai (core/forkchoice.go)\<close>

text \<open>
  The file embeds the two methods of \<open>ForkChoice\<close>: \<open>ReorgNeeded\<close>, which decides whether
  the canonical chain is reorganised to an external header, and \<open>UntwistAndTrim\<close>, which
  classifies the outcome of the coincidence check. Go values are modelled as they are
  typed in the source: a pointer is an \<open>option\<close> (\<open>None\<close> is \<open>nil\<close>), a slice is a list, a
  \<open>nil\<close> slice of difficulties is \<open>None\<close>, a pair \<open>(value, error)\<close> is a pair whose second
  component is \<open>None\<close> for the \<open>nil\<close> error, and a run-time panic is the left summand of the
  result. The calls to \<open>fmt.Println\<close> and \<open>log.Debug\<close> only print; they are left out.
\<close>

subsection \<open>Go values\<close>

datatype panic = NilDereference | IndexOutOfRange

text \<open>A \<open>*big.Int\<close>: \<open>None\<close> is the \<open>nil\<close> pointer, \<open>Some x\<close> points to the integer \<open>x\<close>.\<close>

type_synonym bigInt = "int option"

text \<open>
  Indexing a slice, \<open>xs[i]\<close> with \<open>i\<close> of type \<open>int\<close>: outside \<open>0 \<le> i < len(xs)\<close> Go panics.
  A \<open>nil\<close> slice has length 0 and indexes like the empty list.
\<close>

definition index :: "'a list \<Rightarrow> int \<Rightarrow> panic + 'a" where
  "index xs i = (if 0 \<le> i \<and> i < int (length xs) then Inr (xs ! nat i) else Inl IndexOutOfRange)"

text \<open>
  \<open>(*big.Int).Uint64\<close> returns the low 64 bits of the magnitude of its receiver
  (\<open>low64(x.abs)\<close>); on a \<open>nil\<close> receiver the field access panics.
\<close>

fun Uint64 :: "bigInt \<Rightarrow> panic + 64 word" where
  "Uint64 None = Inl NilDereference"
| "Uint64 (Some x) = Inr (word_of_int \<bar>x\<bar>)"

text \<open>
  \<open>(*big.Int).Cmp\<close> returns \<open>-1\<close>, \<open>0\<close> or \<open>+1\<close>. Its first case is the pointer comparison
  \<open>x == y\<close>, which also holds of two \<open>nil\<close> pointers; every other case reads \<open>x.neg\<close> and
  \<open>y.neg\<close> and panics when one of the two is \<open>nil\<close>.
\<close>

fun Cmp :: "bigInt \<Rightarrow> bigInt \<Rightarrow> panic + int" where
  "Cmp None None = Inr 0"
| "Cmp None (Some y) = Inl NilDereference"
| "Cmp (Some x) None = Inl NilDereference"
| "Cmp (Some x) (Some y) = Inr (if x < y then - 1 else if x = y then 0 else 1)"

text \<open>
  A value of the interface \<open>error\<close>: either the \<open>*errorString\<close> that \<open>errors.New\<close> builds, or
  a value \<open>v\<close> of any other dynamic type together with the text its \<open>Error()\<close> method
  returns.
\<close>

datatype 'e error = errorString string | other 'e string

fun Error :: "'e error \<Rightarrow> string" where
  "Error (errorString s) = s"
| "Error (other v s) = s"

definition errors_New :: "string \<Rightarrow> 'e error" where
  "errors_New s = errorString s"

subsection \<open>Headers and the package \<open>types\<close>\<close>

text \<open>
  \<open>types.Header\<close> is declared outside this file. The code reads one field, \<open>Number\<close>, a
  slice of \<open>*big.Int\<close> with one entry per hierarchical context, and calls the method
  \<open>Hash()\<close>. \<open>Others\<close> stands for all the remaining fields, which this file never reads:
  two headers may agree on \<open>Number\<close> and still differ.
\<close>

record header =
  Number :: "bigInt list"
  Others :: nat

type_synonym hash = "256 word"

text \<open>
  What the code uses of package \<open>types\<close> is taken as a parameter: the package variable
  \<open>QuaiNetworkContext\<close> (an \<open>int\<close>) and the method \<open>Hash\<close> of a header.
\<close>

record types_pkg =
  QuaiNetworkContext :: int
  Hash :: "header \<Rightarrow> hash"

text \<open>The expression \<open>h.Number[types.QuaiNetworkContext].Uint64()\<close> on a non-nil header.\<close>

definition NumberU64 :: "types_pkg \<Rightarrow> header \<Rightarrow> panic + 64 word" where
  "NumberU64 T h =
     (case index (Number h) (QuaiNetworkContext T) of
        Inl p \<Rightarrow> Inl p
      | Inr x \<Rightarrow> Uint64 x)"

subsection \<open>The collaborators\<close>

text \<open>
  The methods of the interface \<open>ChainReader\<close> that the two operations call; \<open>Config\<close>,
  \<open>GetBlockByHash\<close> and \<open>DomReorgNeeded\<close> are never called (the only call of the last one
  is commented out). A total difficulty is a slice of \<open>*big.Int\<close>; \<open>None\<close> is the \<open>nil\<close>
  slice. \<open>'t\<close> is the type \<open>types.PCRCTermini\<close>, whose values the code discards.
\<close>

type_synonym td = "bigInt list option"

record ('e, 't) ChainReader =
  GetTd :: "hash \<Rightarrow> 64 word \<Rightarrow> td"
  CalcTd :: "header \<Rightarrow> td \<times> 'e error option"
  HLCR :: "td \<Rightarrow> td \<Rightarrow> bool"
  PCCRC :: "header \<Rightarrow> int \<Rightarrow> 't \<times> 'e error option"
  GetDifficultyOrder :: "header \<Rightarrow> int \<times> 'e error option"

text \<open>
  A \<open>*mrand.Rand\<close>: a deterministic generator. Its seed fixes the whole sequence of the
  values \<open>Float64()\<close> will return (each a float64, read here as the real number it
  denotes); the state is the number of values drawn so far.
\<close>

record Rand =
  stream :: "nat \<Rightarrow> real"
  drawn :: nat

definition Float64 :: "Rand \<Rightarrow> real \<times> Rand" where
  "Float64 r = (stream r (drawn r), r\<lparr>drawn := drawn r + 1\<rparr>)"

text \<open>
  The struct \<open>ForkChoice\<close>, as \<open>NewForkChoice\<close> builds it: a chain reader, a generator and
  the function \<open>preserve\<close>, which may be \<open>nil\<close>.
\<close>

record ('e, 't) ForkChoice =
  chain :: "('e, 't) ChainReader"
  rand :: Rand
  preserve :: "(header \<Rightarrow> bool) option"

subsection \<open>ReorgNeeded\<close>

text \<open>
  Line 118, one conjunct: \<open>externTd[i].Cmp(localTd[i]) == 0\<close>.
\<close>

definition cmpEqAt :: "bigInt list \<Rightarrow> bigInt list \<Rightarrow> int \<Rightarrow> panic + bool" where
  "cmpEqAt externTd localTd i =
     (case index externTd i of
        Inl p \<Rightarrow> Inl p
      | Inr x \<Rightarrow>
          (case index localTd i of
             Inl p \<Rightarrow> Inl p
           | Inr y \<Rightarrow>
               (case Cmp x y of
                  Inl p \<Rightarrow> Inl p
                | Inr c \<Rightarrow> Inr (c = 0))))"

text \<open>
  Line 118, \<open>equalTd\<close>: the three conjuncts under Go's \<open>&&\<close>, which evaluates its right
  operand only when the left one is true.
\<close>

definition equalTd :: "bigInt list \<Rightarrow> bigInt list \<Rightarrow> panic + bool" where
  "equalTd externTd localTd =
     (case cmpEqAt externTd localTd 0 of
        Inl p \<Rightarrow> Inl p
      | Inr b0 \<Rightarrow>
          if \<not> b0 then Inr False
          else
            (case cmpEqAt externTd localTd 1 of
               Inl p \<Rightarrow> Inl p
             | Inr b1 \<Rightarrow>
                 if \<not> b1 then Inr False
                 else cmpEqAt externTd localTd 2))"

text \<open>
  Lines 120 to 129, the body of \<open>if !reorg && equalTd\<close>: it returns the new value of
  \<open>reorg\<close> and the generator. \<open>||\<close> evaluates \<open>f.rand.Float64()\<close> only when
  \<open>externPreserve\<close> is false, and \<open>&&\<close> evaluates the disjunction only when
  \<open>currentPreserve\<close> is false.
\<close>

definition tieBreak ::
  "types_pkg \<Rightarrow> ('e, 't) ForkChoice \<Rightarrow> header \<Rightarrow> header \<Rightarrow> bool \<Rightarrow> (panic + bool) \<times> Rand"
where
  "tieBreak T f current header reorg =
     (case NumberU64 T header of
        Inl p \<Rightarrow> (Inl p, rand f)
      | Inr number \<Rightarrow>
          (case NumberU64 T current of
             Inl p \<Rightarrow> (Inl p, rand f)
           | Inr headNumber \<Rightarrow>
               if number < headNumber then (Inr True, rand f)
               else if number = headNumber then
                 (let (currentPreserve, externPreserve) =
                        (case preserve f of
                           None \<Rightarrow> (False, False)
                         | Some p \<Rightarrow> (p current, p header))
                  in if currentPreserve then (Inr False, rand f)
                     else if externPreserve then (Inr True, rand f)
                     else (let (x, r) = Float64 (rand f) in (Inr (x < 1 / 2), r)))
               else (Inr reorg, rand f)))"

text \<open>
  \<open>ReorgNeeded\<close>, lines 96 to 142. The result is the pair \<open>(bool, error)\<close> the method
  returns, or a panic, together with the generator after the call.
\<close>

definition ReorgNeeded ::
  "types_pkg \<Rightarrow> ('e, 't) ForkChoice \<Rightarrow> header option \<Rightarrow> header option
     \<Rightarrow> (panic + bool \<times> 'e error option) \<times> Rand"
where
  "ReorgNeeded T f current header =
     (case (current, header) of
        (Some cur, Some hdr) \<Rightarrow>
          (case NumberU64 T cur of
             Inl p \<Rightarrow> (Inl p, rand f)
           | Inr curNumber \<Rightarrow>
               (let localTd = GetTd (chain f) (Hash T cur) curNumber;
                    (externTd, err) = CalcTd (chain f) hdr
                in case err of
                     Some e \<Rightarrow> (Inr (False, Some e), rand f)
                   | None \<Rightarrow>
                       (case (localTd, externTd) of
                          (Some loc, Some ext) \<Rightarrow>
                            (let reorg = HLCR (chain f) localTd externTd
                             in case equalTd ext loc of
                                  Inl p \<Rightarrow> (Inl p, rand f)
                                | Inr eq \<Rightarrow>
                                    if \<not> reorg \<and> eq then
                                      (case tieBreak T f cur hdr reorg of
                                         (Inl p, r) \<Rightarrow> (Inl p, r)
                                       | (Inr b, r) \<Rightarrow> (Inr (b, None), r))
                                    else (Inr (reorg, None), rand f))
                        | _ \<Rightarrow> (Inr (False, Some (errors_New ''missing td'')), rand f))))
      | _ \<Rightarrow>
          (Inr (False, Some (errors_New ''reorg beeing calculated on nil header'')), rand f))"

subsection \<open>UntwistAndTrim\<close>

text \<open>
  \<open>UntwistAndTrim\<close>, lines 144 to 166, on a non-nil header. The result is the error it
  returns; \<open>None\<close> is \<open>nil\<close>.
\<close>

definition UntwistAndTrim :: "('e, 't) ForkChoice \<Rightarrow> header \<Rightarrow> 'e error option" where
  "UntwistAndTrim f header =
     (let (headerOrder, err) = GetDifficultyOrder (chain f) header
      in case err of
           Some e \<Rightarrow> Some e
         | None \<Rightarrow>
             (let (termini, err) = PCCRC (chain f) header headerOrder
              in case err of
                   Some e \<Rightarrow>
                     if Error e = ''slice is not synced'' then None
                     else if Error e = ''PCCOP has found chain is not being built on canonical dom''
                     then None
                     else Some e
                 | None \<Rightarrow> None))"

subsection \<open>What the properties below speak about\<close>

text \<open>
  A call reaches the coin flip when it draws from the generator: after it, the number of
  values drawn has changed.
\<close>

definition coinFlipReached ::
  "types_pkg \<Rightarrow> ('e, 't) ForkChoice \<Rightarrow> header option \<Rightarrow> header option \<Rightarrow> bool" where
  "coinFlipReached T f current header \<longleftrightarrow>
     drawn (snd (ReorgNeeded T f current header)) \<noteq> drawn (rand f)"

subsection \<open>Test doubles\<close>

text \<open>
  A chain reader that answers every call with a fixed value, a package state whose
  native context is index 2 (the finest level), headers that differ in their number at
  that index and in their other fields, a generator that returns one value for ever,
  and a fork choice made of these.
\<close>

definition stubChain ::
  "td \<Rightarrow> td \<times> 'e error option \<Rightarrow> bool \<Rightarrow> 't \<times> 'e error option \<Rightarrow> int \<times> 'e error option
     \<Rightarrow> ('e, 't) ChainReader" where
  "stubChain l c b p d =
     \<lparr>GetTd = (\<lambda>h n. l), CalcTd = (\<lambda>h. c), HLCR = (\<lambda>x y. b), PCCRC = (\<lambda>h k. p),
      GetDifficultyOrder = (\<lambda>h. d)\<rparr>"

definition zoneTypes :: types_pkg where
  "zoneTypes = \<lparr>QuaiNetworkContext = 2, Hash = (\<lambda>h. word_of_nat (Others h))\<rparr>"

definition headerAt :: "int \<Rightarrow> nat \<Rightarrow> header" where
  "headerAt n k = \<lparr>Number = [Some 1, Some 4, Some n], Others = k\<rparr>"

definition constRand :: "real \<Rightarrow> Rand" where
  "constRand x = \<lparr>stream = (\<lambda>n. x), drawn = 0\<rparr>"

definition stubChoice ::
  "('e, 't) ChainReader \<Rightarrow> real \<Rightarrow> (header \<Rightarrow> bool) option \<Rightarrow> ('e, 't) ForkChoice" where
  "stubChoice c x p = \<lparr>chain = c, rand = constRand x, preserve = p\<rparr>"

text \<open>The chain readers of the scenarios: a heavier candidate, and an exact tie.\<close>

definition heavierChain :: "(nat, unit) ChainReader" where
  "heavierChain =
     stubChain (Some [Some 5, Some 6, Some 7]) (Some [Some 5, Some 6, Some 9], None) True
       ((), None) (2, None)"

definition tiedChain :: "(nat, unit) ChainReader" where
  "tiedChain =
     stubChain (Some [Some 5, Some 6, Some 7]) (Some [Some 5, Some 6, Some 7], None) False
       ((), None) (2, None)"

text \<open>The predicate \<open>preserve\<close> of a miner that prefers the headers it mined itself.\<close>

definition minedLocally :: "header \<Rightarrow> bool" where
  "minedLocally h \<longleftrightarrow> Others h = 0"

text \<open>
  Chain readers whose difficulty lookups fail: \<open>CalcTd\<close> returns an error, the stored
  difficulty is absent, the computed difficulty is absent.
\<close>

definition failingChain :: "(nat, unit) ChainReader" where
  "failingChain =
     stubChain None (None, Some (other 404 ''unknown ancestor'')) False ((), None) (2, None)"

definition missingLocalChain :: "(nat, unit) ChainReader" where
  "missingLocalChain =
     stubChain None (Some [Some 5, Some 6, Some 7], None) True ((), None) (2, None)"

definition missingExternChain :: "(nat, unit) ChainReader" where
  "missingExternChain =
     stubChain (Some [Some 5, Some 6, Some 7]) (None, None) True ((), None) (2, None)"

text \<open>A chain reader whose difficulties have two entries instead of three.\<close>

definition shortChain :: "(nat, unit) ChainReader" where
  "shortChain =
     stubChain (Some [Some 5, Some 6]) (Some [Some 5, Some 6], None) True ((), None) (2, None)"

text \<open>
  Chain readers for the coincidence check: the two benign failures, another failure,
  and a failure of the classification of the level.
\<close>

definition notSyncedChain :: "(nat, unit) ChainReader" where
  "notSyncedChain =
     stubChain None (None, None) False ((), Some (errorString ''slice is not synced''))
       (2, None)"

definition notCanonicalChain :: "(nat, unit) ChainReader" where
  "notCanonicalChain =
     stubChain None (None, None) False
       ((), Some (other 3 ''PCCOP has found chain is not being built on canonical dom''))
       (1, None)"

definition twistedChain :: "(nat, unit) ChainReader" where
  "twistedChain =
     stubChain None (None, None) False ((), Some (other 7 ''termini do not match'')) (2, None)"

definition unorderedChain :: "(nat, unit) ChainReader" where
  "unorderedChain =
     stubChain None (None, None) False ((), None)
       (- 1, Some (errorString ''difficulty order not found''))"

section \<open>Properties\<close>

subsection \<open>Auxiliary facts\<close>

lemma cmpEqAt_0: "cmpEqAt (Some a # es) (Some b # ls) 0 = Inr (a = b)"
  by (simp add: cmpEqAt_def index_def)

lemma cmpEqAt_1: "cmpEqAt (e0 # Some a # es) (l0 # Some b # ls) 1 = Inr (a = b)"
  by (simp add: cmpEqAt_def index_def)

lemma cmpEqAt_2: "cmpEqAt (e0 # e1 # Some a # es) (l0 # l1 # Some b # ls) 2 = Inr (a = b)"
  by (simp add: cmpEqAt_def index_def)

text \<open>
  On two slices that start with three non-nil integers, \<open>equalTd\<close> does not panic and is
  the equality of the three components.
\<close>

lemma equalTd_tuple:
  "equalTd (Some a' # Some b' # Some c' # es) (Some a # Some b # Some c # ls)
     = Inr (a' = a \<and> b' = b \<and> c' = c)"
  by (simp add: equalTd_def cmpEqAt_0 cmpEqAt_1 cmpEqAt_2)

text \<open>
  The number the code compares is the \<open>uint64\<close> that \<open>Uint64()\<close> reads. For numbers from
  \<open>0\<close> up to \<open>2 ^ 64 - 1\<close> it orders and separates headers as the integers themselves do.
\<close>

lemma Uint64_less_iff:
  assumes "0 \<le> m" "m < 2 ^ 64" "0 \<le> n" "n < 2 ^ 64"
    and "Uint64 (Some m) = Inr x" "Uint64 (Some n) = Inr y"
  shows "x < y \<longleftrightarrow> m < n"
proof -
  have "uint x = m" "uint y = n"
    using assms by (auto simp: uint_word_of_int take_bit_int_eq_self)
  then show ?thesis by (simp add: word_less_def)
qed

lemma Uint64_eq_iff:
  assumes "0 \<le> m" "m < 2 ^ 64" "0 \<le> n" "n < 2 ^ 64"
    and "Uint64 (Some m) = Inr x" "Uint64 (Some n) = Inr y"
  shows "x = y \<longleftrightarrow> m = n"
proof -
  have "uint x = m" "uint y = n"
    using assms by (auto simp: uint_word_of_int take_bit_int_eq_self)
  then show ?thesis by (auto simp: word_uint_eq_iff)
qed

lemma Uint64_wraps:
  "Uint64 (Some (2 ^ 64 + 3)) = Inr 3"
  "Uint64 (Some (- 3)) = Inr 3"
  by simp_all

lemma NumberU64_headerAt: "NumberU64 zoneTypes (headerAt n k) = Inr (word_of_int \<bar>n\<bar>)"
  by (simp add: NumberU64_def zoneTypes_def headerAt_def index_def)

text \<open>
  With both difficulty triples present and equal in every component and the
  hierarchical compare false, the call is decided by the tie-break.
\<close>

lemma ReorgNeeded_tied:
  assumes "NumberU64 T cur = Inr headNumber"
    and "GetTd (chain f) (Hash T cur) headNumber = Some (Some a # Some b # Some c # ls)"
    and "CalcTd (chain f) hdr = (Some (Some a # Some b # Some c # es), None)"
    and "\<not> HLCR (chain f) (Some (Some a # Some b # Some c # ls))
             (Some (Some a # Some b # Some c # es))"
  shows "ReorgNeeded T f (Some cur) (Some hdr) =
    (case tieBreak T f cur hdr False of
       (Inl p, r) \<Rightarrow> (Inl p, r)
     | (Inr b, r) \<Rightarrow> (Inr (b, None), r))"
  using assms by (simp add: ReorgNeeded_def equalTd_tuple)

text \<open>
  The coin flip is reached exactly on a tie of the difficulties that the hierarchical
  compare, the numbers and the predicate \<open>preserve\<close> all leave open.
\<close>

lemma coinFlipReached_iff:
  "coinFlipReached T f (Some cur) (Some hdr) \<longleftrightarrow>
     (\<exists>n loc ext. NumberU64 T cur = Inr n \<and> NumberU64 T hdr = Inr n
        \<and> GetTd (chain f) (Hash T cur) n = Some loc
        \<and> CalcTd (chain f) hdr = (Some ext, None)
        \<and> \<not> HLCR (chain f) (Some loc) (Some ext)
        \<and> equalTd ext loc = Inr True
        \<and> (case preserve f of None \<Rightarrow> True | Some p \<Rightarrow> \<not> p cur \<and> \<not> p hdr))"
  by (auto simp: coinFlipReached_def ReorgNeeded_def tieBreak_def Float64_def Let_def
      split: option.splits sum.splits prod.splits if_splits)

lemma heavierChain_simps:
  "GetTd heavierChain h n = Some [Some 5, Some 6, Some 7]"
  "CalcTd heavierChain k = (Some [Some 5, Some 6, Some 9], None)"
  "HLCR heavierChain x y = True"
  by (simp_all add: heavierChain_def stubChain_def)

lemma tiedChain_simps:
  "GetTd tiedChain h n = Some [Some 5, Some 6, Some 7]"
  "CalcTd tiedChain k = (Some [Some 5, Some 6, Some 7], None)"
  "HLCR tiedChain x y = False"
  by (simp_all add: tiedChain_def stubChain_def)

lemma stubChoice_simps:
  "chain (stubChoice c x p) = c"
  "rand (stubChoice c x p) = constRand x"
  "preserve (stubChoice c x p) = p"
  by (simp_all add: stubChoice_def)

text \<open>
  Line 118 is evaluated whatever the hierarchical compare returned: on difficulties
  with fewer than three entries the call panics, also when \<open>HLCR\<close> is true. The
  properties below are therefore stated for difficulties that are triples of integers.
\<close>

lemma ReorgNeeded_short_td_panics:
  "fst (ReorgNeeded zoneTypes (stubChoice shortChain (1 / 4) None)
          (Some (headerAt 9 0)) (Some (headerAt 10 1))) = Inl IndexOutOfRange"
  by (simp add: ReorgNeeded_def NumberU64_headerAt stubChoice_simps shortChain_def
      stubChain_def equalTd_def cmpEqAt_def index_def)

subsection \<open>ReorgNeeded: a heavier candidate\<close>

text \<open>
  Claim C1. Let \<open>current\<close> and \<open>candidate\<close> be non-nil headers, the current one with a
  number at the native context. If the stored local difficulty and the computed
  external difficulty are both present, each a triple of integers, and the hierarchical
  compare \<open>HLCR(localTd, externTd)\<close> returns true, then \<open>ReorgNeeded\<close> returns
  \<open>(true, nil)\<close>; the generator is left as it was.
\<close>

theorem ReorgNeeded_heavier_candidate:
  assumes "NumberU64 T cur = Inr headNumber"
    and "GetTd (chain f) (Hash T cur) headNumber = Some (Some a # Some b # Some c # ls)"
    and "CalcTd (chain f) hdr = (Some (Some a' # Some b' # Some c' # es), None)"
    and "HLCR (chain f) (Some (Some a # Some b # Some c # ls))
           (Some (Some a' # Some b' # Some c' # es))"
  shows "ReorgNeeded T f (Some cur) (Some hdr) = (Inr (True, None), rand f)"
  using assms by (simp add: ReorgNeeded_def equalTd_tuple)

theorem ReorgNeeded_heavier_candidate_witness:
  "NumberU64 zoneTypes (headerAt 9 0) = Inr 9
   \<and> CalcTd heavierChain (headerAt 10 1) = (Some [Some 5, Some 6, Some 9], None)
   \<and> ReorgNeeded zoneTypes (stubChoice heavierChain (3 / 4) None)
        (Some (headerAt 9 0)) (Some (headerAt 10 1))
      = (Inr (True, None), constRand (3 / 4))"
proof -
  let ?f = "stubChoice heavierChain (3 / 4) None"
  have n: "NumberU64 zoneTypes (headerAt 9 0) = Inr 9"
    by (simp add: NumberU64_headerAt)
  have l: "GetTd (chain ?f) (Hash zoneTypes (headerAt 9 0)) 9
             = Some (Some 5 # Some 6 # Some 7 # [])"
    by (simp add: stubChoice_simps heavierChain_simps)
  have e: "CalcTd (chain ?f) (headerAt 10 1) = (Some (Some 5 # Some 6 # Some 9 # []), None)"
    by (simp add: stubChoice_simps heavierChain_simps)
  have h: "HLCR (chain ?f) (Some (Some 5 # Some 6 # Some 7 # []))
             (Some (Some 5 # Some 6 # Some 9 # []))"
    by (simp add: stubChoice_simps heavierChain_simps)
  from ReorgNeeded_heavier_candidate [OF n l e h] n show ?thesis
    by (simp add: stubChoice_simps heavierChain_simps)
qed

subsection \<open>ReorgNeeded: the tie-break\<close>

text \<open>
  Claim C2. Let \<open>current\<close> and \<open>candidate\<close> be non-nil headers with both difficulty triples
  present, the hierarchical compare false and the three components pairwise equal. If
  the candidate's number at the native context (as the code reads it, with \<open>Uint64()\<close>)
  is strictly less than the current head's, then \<open>ReorgNeeded\<close> returns \<open>(true, nil)\<close>,
  whatever \<open>preserve\<close> is, and the generator is left as it was: no value is drawn.
\<close>

theorem ReorgNeeded_tied_lower_number:
  assumes "NumberU64 T cur = Inr headNumber"
    and "NumberU64 T hdr = Inr number"
    and "GetTd (chain f) (Hash T cur) headNumber = Some (Some a # Some b # Some c # ls)"
    and "CalcTd (chain f) hdr = (Some (Some a # Some b # Some c # es), None)"
    and "\<not> HLCR (chain f) (Some (Some a # Some b # Some c # ls))
             (Some (Some a # Some b # Some c # es))"
    and "number < headNumber"
  shows "ReorgNeeded T f (Some cur) (Some hdr) = (Inr (True, None), rand f)"
  using assms by (simp add: ReorgNeeded_tied tieBreak_def)

theorem ReorgNeeded_tied_lower_number_witness:
  "NumberU64 zoneTypes (headerAt 9 0) = Inr 9
   \<and> NumberU64 zoneTypes (headerAt 8 1) = Inr 8
   \<and> (8 :: 64 word) < 9
   \<and> ReorgNeeded zoneTypes (stubChoice tiedChain (3 / 4) (Some minedLocally))
        (Some (headerAt 9 0)) (Some (headerAt 8 1))
      = (Inr (True, None), constRand (3 / 4))"
proof -
  let ?f = "stubChoice tiedChain (3 / 4) (Some minedLocally)"
  have n: "NumberU64 zoneTypes (headerAt 9 0) = Inr 9"
    by (simp add: NumberU64_headerAt)
  have m: "NumberU64 zoneTypes (headerAt 8 1) = Inr 8"
    by (simp add: NumberU64_headerAt)
  have l: "GetTd (chain ?f) (Hash zoneTypes (headerAt 9 0)) 9
             = Some (Some 5 # Some 6 # Some 7 # [])"
    by (simp add: stubChoice_simps tiedChain_simps)
  have e: "CalcTd (chain ?f) (headerAt 8 1) = (Some (Some 5 # Some 6 # Some 7 # []), None)"
    by (simp add: stubChoice_simps tiedChain_simps)
  have h: "\<not> HLCR (chain ?f) (Some (Some 5 # Some 6 # Some 7 # []))
             (Some (Some 5 # Some 6 # Some 7 # []))"
    by (simp add: stubChoice_simps tiedChain_simps)
  have lt: "(8 :: 64 word) < 9" by simp
  from ReorgNeeded_tied_lower_number [OF n m l e h lt] n m lt show ?thesis
    by (simp add: stubChoice_simps)
qed

text \<open>
  Claim C3. Let \<open>current\<close> and \<open>candidate\<close> be non-nil headers with both difficulty triples
  present, the hierarchical compare false, the three components pairwise equal and
  equal numbers at the native context. If \<open>preserve\<close> is supplied, true on \<open>current\<close> and
  false on \<open>candidate\<close>, then \<open>ReorgNeeded\<close> returns \<open>(false, nil)\<close> for every generator, that
  is for every value a draw could give; no value is drawn.
\<close>

theorem ReorgNeeded_tied_keeps_preferred:
  assumes "NumberU64 T cur = Inr headNumber"
    and "NumberU64 T hdr = Inr headNumber"
    and "GetTd (chain f) (Hash T cur) headNumber = Some (Some a # Some b # Some c # ls)"
    and "CalcTd (chain f) hdr = (Some (Some a # Some b # Some c # es), None)"
    and "\<not> HLCR (chain f) (Some (Some a # Some b # Some c # ls))
             (Some (Some a # Some b # Some c # es))"
    and "preserve f = Some p" and "p cur" and "\<not> p hdr"
  shows "ReorgNeeded T f (Some cur) (Some hdr) = (Inr (False, None), rand f)"
  using assms by (simp add: ReorgNeeded_tied tieBreak_def)

theorem ReorgNeeded_tied_keeps_preferred_witness:
  "NumberU64 zoneTypes (headerAt 9 0) = Inr 9
   \<and> NumberU64 zoneTypes (headerAt 9 1) = Inr 9
   \<and> minedLocally (headerAt 9 0) \<and> \<not> minedLocally (headerAt 9 1)
   \<and> ReorgNeeded zoneTypes (stubChoice tiedChain (1 / 4) (Some minedLocally))
        (Some (headerAt 9 0)) (Some (headerAt 9 1))
      = (Inr (False, None), constRand (1 / 4))"
proof -
  let ?f = "stubChoice tiedChain (1 / 4) (Some minedLocally)"
  have n: "NumberU64 zoneTypes (headerAt 9 0) = Inr 9"
    by (simp add: NumberU64_headerAt)
  have m: "NumberU64 zoneTypes (headerAt 9 1) = Inr 9"
    by (simp add: NumberU64_headerAt)
  have l: "GetTd (chain ?f) (Hash zoneTypes (headerAt 9 0)) 9
             = Some (Some 5 # Some 6 # Some 7 # [])"
    by (simp add: stubChoice_simps tiedChain_simps)
  have e: "CalcTd (chain ?f) (headerAt 9 1) = (Some (Some 5 # Some 6 # Some 7 # []), None)"
    by (simp add: stubChoice_simps tiedChain_simps)
  have h: "\<not> HLCR (chain ?f) (Some (Some 5 # Some 6 # Some 7 # []))
             (Some (Some 5 # Some 6 # Some 7 # []))"
    by (simp add: stubChoice_simps tiedChain_simps)
  have p: "preserve ?f = Some minedLocally"
    by (simp add: stubChoice_simps)
  have c: "minedLocally (headerAt 9 0)"
    by (simp add: minedLocally_def headerAt_def)
  have d: "\<not> minedLocally (headerAt 9 1)"
    by (simp add: minedLocally_def headerAt_def)
  from ReorgNeeded_tied_keeps_preferred [OF n m l e h p c d] n m c d show ?thesis
    by (simp add: stubChoice_simps)
qed

text \<open>
  Claim C4. Let \<open>current\<close> and \<open>candidate\<close> be non-nil headers with both difficulty triples
  present, the hierarchical compare false and the three components pairwise equal. If
  the candidate's number at the native context (as the code reads it) is strictly
  greater than the current head's, then \<open>ReorgNeeded\<close> returns \<open>(false, nil)\<close>: no branch
  of the tie-break applies, and the result is the one of the hierarchical compare.
\<close>

theorem ReorgNeeded_tied_higher_number:
  assumes "NumberU64 T cur = Inr headNumber"
    and "NumberU64 T hdr = Inr number"
    and "GetTd (chain f) (Hash T cur) headNumber = Some (Some a # Some b # Some c # ls)"
    and "CalcTd (chain f) hdr = (Some (Some a # Some b # Some c # es), None)"
    and "\<not> HLCR (chain f) (Some (Some a # Some b # Some c # ls))
             (Some (Some a # Some b # Some c # es))"
    and "headNumber < number"
  shows "ReorgNeeded T f (Some cur) (Some hdr) = (Inr (False, None), rand f)"
  using assms by (auto simp add: ReorgNeeded_tied tieBreak_def)

theorem ReorgNeeded_tied_higher_number_witness:
  "NumberU64 zoneTypes (headerAt 9 0) = Inr 9
   \<and> NumberU64 zoneTypes (headerAt 10 1) = Inr 10
   \<and> (9 :: 64 word) < 10
   \<and> ReorgNeeded zoneTypes (stubChoice tiedChain (1 / 4) None)
        (Some (headerAt 9 0)) (Some (headerAt 10 1))
      = (Inr (False, None), constRand (1 / 4))"
proof -
  let ?f = "stubChoice tiedChain (1 / 4) None"
  have n: "NumberU64 zoneTypes (headerAt 9 0) = Inr 9"
    by (simp add: NumberU64_headerAt)
  have m: "NumberU64 zoneTypes (headerAt 10 1) = Inr 10"
    by (simp add: NumberU64_headerAt)
  have l: "GetTd (chain ?f) (Hash zoneTypes (headerAt 9 0)) 9
             = Some (Some 5 # Some 6 # Some 7 # [])"
    by (simp add: stubChoice_simps tiedChain_simps)
  have e: "CalcTd (chain ?f) (headerAt 10 1) = (Some (Some 5 # Some 6 # Some 7 # []), None)"
    by (simp add: stubChoice_simps tiedChain_simps)
  have h: "\<not> HLCR (chain ?f) (Some (Some 5 # Some 6 # Some 7 # []))
             (Some (Some 5 # Some 6 # Some 7 # []))"
    by (simp add: stubChoice_simps tiedChain_simps)
  have lt: "(9 :: 64 word) < 10" by simp
  from ReorgNeeded_tied_higher_number [OF n m l e h lt] n m lt show ?thesis
    by (simp add: stubChoice_simps)
qed

text \<open>
  Claim C10. When \<open>preserve\<close> is \<open>nil\<close>, a call that reaches the tie of equal difficulties
  and equal numbers treats both headers as not preferred and draws exactly one value
  \<open>x\<close> from the generator: the result is \<open>(true, nil)\<close> when \<open>x < 1/2\<close> and \<open>(false, nil)\<close>
  otherwise, and the generator returned is the one after that single draw.
\<close>

theorem ReorgNeeded_tied_coin_flip:
  assumes "NumberU64 T cur = Inr headNumber"
    and "NumberU64 T hdr = Inr headNumber"
    and "GetTd (chain f) (Hash T cur) headNumber = Some (Some a # Some b # Some c # ls)"
    and "CalcTd (chain f) hdr = (Some (Some a # Some b # Some c # es), None)"
    and "\<not> HLCR (chain f) (Some (Some a # Some b # Some c # ls))
             (Some (Some a # Some b # Some c # es))"
    and "preserve f = None"
    and "Float64 (rand f) = (x, r)"
  shows "ReorgNeeded T f (Some cur) (Some hdr) = (Inr (x < 1 / 2, None), r)"
  using assms by (simp add: ReorgNeeded_tied tieBreak_def)

theorem ReorgNeeded_tied_coin_flip_witness:
  "Float64 (constRand (1 / 4)) = (1 / 4, (constRand (1 / 4))\<lparr>drawn := 1\<rparr>)
   \<and> ReorgNeeded zoneTypes (stubChoice tiedChain (1 / 4) None)
        (Some (headerAt 9 0)) (Some (headerAt 9 1))
      = (Inr (True, None), (constRand (1 / 4))\<lparr>drawn := 1\<rparr>)
   \<and> Float64 (constRand (3 / 4)) = (3 / 4, (constRand (3 / 4))\<lparr>drawn := 1\<rparr>)
   \<and> ReorgNeeded zoneTypes (stubChoice tiedChain (3 / 4) None)
        (Some (headerAt 9 0)) (Some (headerAt 9 1))
      = (Inr (False, None), (constRand (3 / 4))\<lparr>drawn := 1\<rparr>)"
proof -
  let ?f = "\<lambda>x. stubChoice tiedChain x None"
  have n: "NumberU64 zoneTypes (headerAt 9 0) = Inr 9"
    by (simp add: NumberU64_headerAt)
  have m: "NumberU64 zoneTypes (headerAt 9 1) = Inr 9"
    by (simp add: NumberU64_headerAt)
  have l: "GetTd (chain (?f x)) (Hash zoneTypes (headerAt 9 0)) 9
             = Some (Some 5 # Some 6 # Some 7 # [])" for x
    by (simp add: stubChoice_simps tiedChain_simps)
  have e: "CalcTd (chain (?f x)) (headerAt 9 1)
             = (Some (Some 5 # Some 6 # Some 7 # []), None)" for x
    by (simp add: stubChoice_simps tiedChain_simps)
  have h: "\<not> HLCR (chain (?f x)) (Some (Some 5 # Some 6 # Some 7 # []))
             (Some (Some 5 # Some 6 # Some 7 # []))" for x
    by (simp add: stubChoice_simps tiedChain_simps)
  have p: "preserve (?f x) = None" for x
    by (simp add: stubChoice_simps)
  have d: "Float64 (rand (?f x)) = (x, (constRand x)\<lparr>drawn := 1\<rparr>)" for x
    by (simp add: stubChoice_simps Float64_def constRand_def)
  from ReorgNeeded_tied_coin_flip [OF n m l e h p d, of "1 / 4"]
    ReorgNeeded_tied_coin_flip [OF n m l e h p d, of "3 / 4"]
    d [of "1 / 4"] d [of "3 / 4"]
  show ?thesis
    by (simp add: stubChoice_simps)
qed

subsection \<open>ReorgNeeded: failures\<close>

text \<open>
  Claim C5. For every header \<open>h\<close> (a pointer, \<open>nil\<close> or not), \<open>ReorgNeeded(nil, h)\<close> and
  \<open>ReorgNeeded(h, nil)\<close> both return \<open>false\<close> together with the non-nil error that
  \<open>errors.New\<close> builds for the invalid input. The result is the same for every chain
  reader, predicate and generator: no collaborator is consulted and no value is drawn.
\<close>

theorem ReorgNeeded_nil_header:
  "ReorgNeeded T f None h
     = (Inr (False, Some (errors_New ''reorg beeing calculated on nil header'')), rand f)
   \<and> ReorgNeeded T f h None
     = (Inr (False, Some (errors_New ''reorg beeing calculated on nil header'')), rand f)"
  by (simp add: ReorgNeeded_def split: option.split)

text \<open>
  Claim C6. Let \<open>current\<close> and \<open>candidate\<close> be non-nil headers, the current one with a
  number at the native context. If the computation \<open>CalcTd\<close> of the external difficulty
  fails, its error is returned unchanged with the result \<open>false\<close>. If it succeeds and the
  stored local difficulty or the computed external difficulty is absent (\<open>nil\<close>), the
  call returns \<open>false\<close> with the error \<open>missing td\<close>.
\<close>

theorem ReorgNeeded_missing_td:
  assumes "NumberU64 T cur = Inr headNumber"
  shows "(CalcTd (chain f) hdr = (ext, Some e) \<longrightarrow>
            ReorgNeeded T f (Some cur) (Some hdr) = (Inr (False, Some e), rand f))
       \<and> (CalcTd (chain f) hdr = (ext, None)
            \<and> (GetTd (chain f) (Hash T cur) headNumber = None \<or> ext = None) \<longrightarrow>
            ReorgNeeded T f (Some cur) (Some hdr)
              = (Inr (False, Some (errors_New ''missing td'')), rand f))"
  using assms by (auto simp: ReorgNeeded_def Let_def split: option.splits)

theorem ReorgNeeded_missing_td_witness:
  "ReorgNeeded zoneTypes (stubChoice failingChain (1 / 4) None)
        (Some (headerAt 9 0)) (Some (headerAt 10 1))
      = (Inr (False, Some (other 404 ''unknown ancestor'')), constRand (1 / 4))
   \<and> ReorgNeeded zoneTypes (stubChoice missingLocalChain (1 / 4) None)
        (Some (headerAt 9 0)) (Some (headerAt 10 1))
      = (Inr (False, Some (errors_New ''missing td'')), constRand (1 / 4))
   \<and> ReorgNeeded zoneTypes (stubChoice missingExternChain (1 / 4) None)
        (Some (headerAt 9 0)) (Some (headerAt 10 1))
      = (Inr (False, Some (errors_New ''missing td'')), constRand (1 / 4))"
proof -
  let ?f = "\<lambda>c :: (nat, unit) ChainReader. stubChoice c (1 / 4) None"
  have n: "NumberU64 zoneTypes (headerAt 9 0) = Inr 9"
    by (simp add: NumberU64_headerAt)
  have c1: "CalcTd (chain (?f failingChain)) (headerAt 10 1)
              = (None, Some (other 404 ''unknown ancestor''))"
    by (simp add: stubChoice_simps failingChain_def stubChain_def)
  have c2: "CalcTd (chain (?f missingLocalChain)) (headerAt 10 1)
              = (Some [Some 5, Some 6, Some 7], None)
            \<and> (GetTd (chain (?f missingLocalChain)) (Hash zoneTypes (headerAt 9 0)) 9 = None
                \<or> Some [Some 5, Some 6, Some 7] = (None :: td))"
    by (simp add: stubChoice_simps missingLocalChain_def stubChain_def)
  have c3: "CalcTd (chain (?f missingExternChain)) (headerAt 10 1) = (None, None)
            \<and> (GetTd (chain (?f missingExternChain)) (Hash zoneTypes (headerAt 9 0)) 9 = None
                \<or> (None :: td) = None)"
    by (simp add: stubChoice_simps missingExternChain_def stubChain_def)
  from ReorgNeeded_missing_td [OF n, THEN conjunct1, THEN mp, OF c1]
    ReorgNeeded_missing_td [OF n, THEN conjunct2, THEN mp, OF c2]
    ReorgNeeded_missing_td [OF n, THEN conjunct2, THEN mp, OF c3]
  show ?thesis
    by (simp add: stubChoice_simps)
qed

subsection \<open>ReorgNeeded: determinism\<close>

text \<open>
  Claim C9. Whenever a call of \<open>ReorgNeeded\<close> does not reach the coin flip, its result
  does not depend on the generator: the same inputs and the same collaborators give
  the same pair \<open>(bool, error)\<close> under every other state \<open>r\<close> of the random source, and
  that state is returned untouched. By \<open>coinFlipReached_iff\<close> this covers the calls
  whose difficulties are not all equal, whose numbers differ, or whose tie the
  predicate \<open>preserve\<close> settles alone.
\<close>

theorem ReorgNeeded_deterministic:
  assumes "\<not> coinFlipReached T f current header"
  shows "ReorgNeeded T (f\<lparr>rand := r\<rparr>) current header
           = (fst (ReorgNeeded T f current header), r)"
  using assms
  by (auto simp: coinFlipReached_def ReorgNeeded_def tieBreak_def Float64_def Let_def
      split: option.splits sum.splits prod.splits if_splits)

theorem ReorgNeeded_deterministic_witness:
  "\<not> coinFlipReached zoneTypes (stubChoice tiedChain (1 / 4) (Some minedLocally))
        (Some (headerAt 9 0)) (Some (headerAt 9 1))
   \<and> ReorgNeeded zoneTypes
        ((stubChoice tiedChain (1 / 4) (Some minedLocally))
           \<lparr>rand := \<lparr>stream = (\<lambda>n. 3 / 4), drawn = 5\<rparr>\<rparr>)
        (Some (headerAt 9 0)) (Some (headerAt 9 1))
      = (Inr (False, None), \<lparr>stream = (\<lambda>n. 3 / 4), drawn = 5\<rparr>)"
proof -
  let ?f = "stubChoice tiedChain (1 / 4) (Some minedLocally)"
  have c: "minedLocally (headerAt 9 0)"
    by (simp add: minedLocally_def headerAt_def)
  have n: "\<not> coinFlipReached zoneTypes ?f (Some (headerAt 9 0)) (Some (headerAt 9 1))"
    using c by (simp add: coinFlipReached_iff stubChoice_simps)
  have v: "fst (ReorgNeeded zoneTypes ?f (Some (headerAt 9 0)) (Some (headerAt 9 1)))
             = Inr (False, None)"
    using c
    by (simp add: ReorgNeeded_def NumberU64_headerAt stubChoice_simps tiedChain_simps
        equalTd_tuple tieBreak_def)
  from ReorgNeeded_deterministic [OF n, of "\<lparr>stream = (\<lambda>n. 3 / 4), drawn = 5\<rparr>"] n v
  show ?thesis
    by simp
qed

subsection \<open>UntwistAndTrim\<close>

text \<open>
  Claim C7. For every header, when the classification of the level succeeds and the
  coincidence check fails with an error whose text is \<open>slice is not synced\<close> or
  \<open>PCCOP has found chain is not being built on canonical dom\<close>, \<open>UntwistAndTrim\<close>
  returns \<open>nil\<close>: no error reaches the caller.
\<close>

theorem UntwistAndTrim_benign:
  assumes "GetDifficultyOrder (chain f) h = (headerOrder, None)"
    and "PCCRC (chain f) h headerOrder = (termini, Some e)"
    and "Error e = ''slice is not synced''
         \<or> Error e = ''PCCOP has found chain is not being built on canonical dom''"
  shows "UntwistAndTrim f h = None"
  using assms by (auto simp: UntwistAndTrim_def)

theorem UntwistAndTrim_benign_witness:
  "UntwistAndTrim (stubChoice notSyncedChain (1 / 4) None) (headerAt 9 0) = None
   \<and> UntwistAndTrim (stubChoice notCanonicalChain (1 / 4) None) (headerAt 9 0) = None"
proof -
  let ?f = "\<lambda>c :: (nat, unit) ChainReader. stubChoice c (1 / 4) None"
  have o1: "GetDifficultyOrder (chain (?f notSyncedChain)) (headerAt 9 0) = (2, None)"
    by (simp add: stubChoice_simps notSyncedChain_def stubChain_def)
  have p1: "PCCRC (chain (?f notSyncedChain)) (headerAt 9 0) 2
              = ((), Some (errorString ''slice is not synced''))"
    by (simp add: stubChoice_simps notSyncedChain_def stubChain_def)
  have e1: "Error (errorString ''slice is not synced'' :: nat error) = ''slice is not synced''
            \<or> Error (errorString ''slice is not synced'' :: nat error)
                = ''PCCOP has found chain is not being built on canonical dom''"
    by simp
  have o2: "GetDifficultyOrder (chain (?f notCanonicalChain)) (headerAt 9 0) = (1, None)"
    by (simp add: stubChoice_simps notCanonicalChain_def stubChain_def)
  have p2: "PCCRC (chain (?f notCanonicalChain)) (headerAt 9 0) 1
              = ((), Some (other 3 ''PCCOP has found chain is not being built on canonical dom''))"
    by (simp add: stubChoice_simps notCanonicalChain_def stubChain_def)
  have e2: "Error (other (3 :: nat) ''PCCOP has found chain is not being built on canonical dom'')
              = ''slice is not synced''
            \<or> Error (other (3 :: nat) ''PCCOP has found chain is not being built on canonical dom'')
                = ''PCCOP has found chain is not being built on canonical dom''"
    by simp
  from UntwistAndTrim_benign [OF o1 p1 e1] UntwistAndTrim_benign [OF o2 p2 e2]
  show ?thesis
    by simp
qed

text \<open>
  Claim C8. For every header, \<open>UntwistAndTrim\<close> returns unchanged, as the very error
  value it was given, a failure of the classification of the level and a failure of the
  coincidence check whose text is neither of the two benign ones; and it returns \<open>nil\<close>
  when the coincidence check succeeds.
\<close>

theorem UntwistAndTrim_propagates:
  "(GetDifficultyOrder (chain f) h = (headerOrder, Some e) \<longrightarrow> UntwistAndTrim f h = Some e)
   \<and> (GetDifficultyOrder (chain f) h = (headerOrder, None)
        \<and> PCCRC (chain f) h headerOrder = (termini, Some e)
        \<and> Error e \<noteq> ''slice is not synced''
        \<and> Error e \<noteq> ''PCCOP has found chain is not being built on canonical dom''
      \<longrightarrow> UntwistAndTrim f h = Some e)
   \<and> (GetDifficultyOrder (chain f) h = (headerOrder, None)
        \<and> PCCRC (chain f) h headerOrder = (termini, None)
      \<longrightarrow> UntwistAndTrim f h = None)"
  by (auto simp: UntwistAndTrim_def)

theorem UntwistAndTrim_propagates_witness:
  "UntwistAndTrim (stubChoice unorderedChain (1 / 4) None) (headerAt 9 0)
      = Some (errorString ''difficulty order not found'')
   \<and> UntwistAndTrim (stubChoice twistedChain (1 / 4) None) (headerAt 9 0)
      = Some (other 7 ''termini do not match'')
   \<and> UntwistAndTrim (stubChoice tiedChain (1 / 4) None) (headerAt 9 0) = None"
proof -
  let ?f = "\<lambda>c :: (nat, unit) ChainReader. stubChoice c (1 / 4) None"
  have a: "GetDifficultyOrder (chain (?f unorderedChain)) (headerAt 9 0)
             = (- 1, Some (errorString ''difficulty order not found''))"
    by (simp add: stubChoice_simps unorderedChain_def stubChain_def)
  have b: "GetDifficultyOrder (chain (?f twistedChain)) (headerAt 9 0) = (2, None)
           \<and> PCCRC (chain (?f twistedChain)) (headerAt 9 0) 2
               = ((), Some (other 7 ''termini do not match''))
           \<and> Error (other (7 :: nat) ''termini do not match'') \<noteq> ''slice is not synced''
           \<and> Error (other (7 :: nat) ''termini do not match'')
               \<noteq> ''PCCOP has found chain is not being built on canonical dom''"
    by (simp add: stubChoice_simps twistedChain_def stubChain_def)
  have c: "GetDifficultyOrder (chain (?f tiedChain)) (headerAt 9 0) = (2, None)
           \<and> PCCRC (chain (?f tiedChain)) (headerAt 9 0) 2 = ((), None)"
    by (simp add: stubChoice_simps tiedChain_def stubChain_def)
  from UntwistAndTrim_propagates [THEN conjunct1, THEN mp, OF a]
    UntwistAndTrim_propagates [THEN conjunct2, THEN conjunct1, THEN mp, OF b]
    UntwistAndTrim_propagates [THEN conjunct2, THEN conjunct2, THEN mp, OF c]
  show ?thesis
    by simp
qed

end
